theory Spec2Isabelle
  imports Complex_Main "HOL-Library.Sublist"
begin

section \<open>Wallet risk scoring: floating-point values\<close>

text \<open>
  The development embeds \<^verbatim>\<open>wallet_risk_scoring.py\<close>. A Python float is a finite
  value, an infinity or NaN. Arithmetic on finite values is exact, except that a result
  at or beyond the overflow threshold of a double becomes an infinity; rounding to 53
  bits is not modelled. Infinities and NaN propagate as in IEEE 754, and a comparison with
  NaN is false. Python integers are \<open>int\<close>.
\<close>

datatype pyfloat = Finite real | PosInf | NegInf | NaN

text \<open>
  The least magnitude that rounds to an infinity: halfway between the largest double
  \<open>2 ^ 1024 - 2 ^ 971\<close> and \<open>2 ^ 1024\<close>.
\<close>

definition float_overflow :: real where
  "float_overflow = 2 ^ 1024 - 2 ^ 970"

definition float_of_real :: "real \<Rightarrow> pyfloat" where
  "float_of_real x =
     (if float_overflow \<le> x then PosInf
      else if x \<le> - float_overflow then NegInf
      else Finite x)"

text \<open>The comparisons \<^verbatim>\<open>a < b\<close>, \<^verbatim>\<open>a == b\<close> and \<^verbatim>\<open>a <= b\<close>.\<close>

fun flt :: "pyfloat \<Rightarrow> pyfloat \<Rightarrow> bool" where
  "flt (Finite a) (Finite b) = (a < b)"
| "flt (Finite a) PosInf = True"
| "flt NegInf (Finite b) = True"
| "flt NegInf PosInf = True"
| "flt _ _ = False"

fun feq :: "pyfloat \<Rightarrow> pyfloat \<Rightarrow> bool" where
  "feq (Finite a) (Finite b) = (a = b)"
| "feq PosInf PosInf = True"
| "feq NegInf NegInf = True"
| "feq _ _ = False"

definition fle :: "pyfloat \<Rightarrow> pyfloat \<Rightarrow> bool" where
  "fle a b = (flt a b \<or> feq a b)"

text \<open>
  The built-ins \<^verbatim>\<open>max(a, b)\<close> and \<^verbatim>\<open>min(a, b)\<close> keep the first argument unless
  the second is strictly greater (smaller), so a NaN in first place stays.
\<close>

definition py_max :: "pyfloat \<Rightarrow> pyfloat \<Rightarrow> pyfloat" where
  "py_max a b = (if flt a b then b else a)"

definition py_min :: "pyfloat \<Rightarrow> pyfloat \<Rightarrow> pyfloat" where
  "py_min a b = (if flt b a then b else a)"

fun fneg :: "pyfloat \<Rightarrow> pyfloat" where
  "fneg (Finite a) = Finite (- a)"
| "fneg PosInf = NegInf"
| "fneg NegInf = PosInf"
| "fneg NaN = NaN"

fun fadd :: "pyfloat \<Rightarrow> pyfloat \<Rightarrow> pyfloat" where
  "fadd (Finite a) (Finite b) = float_of_real (a + b)"
| "fadd NaN _ = NaN"
| "fadd _ NaN = NaN"
| "fadd PosInf NegInf = NaN"
| "fadd NegInf PosInf = NaN"
| "fadd PosInf _ = PosInf"
| "fadd NegInf _ = NegInf"
| "fadd (Finite a) b = b"

definition fsub :: "pyfloat \<Rightarrow> pyfloat \<Rightarrow> pyfloat" where
  "fsub a b = fadd a (fneg b)"

text \<open>An infinity multiplied or divided by a finite value takes the sign of the product.\<close>

definition signed_inf :: "bool \<Rightarrow> pyfloat" where
  "signed_inf positive = (if positive then PosInf else NegInf)"

fun fmul :: "pyfloat \<Rightarrow> pyfloat \<Rightarrow> pyfloat" where
  "fmul (Finite a) (Finite b) = float_of_real (a * b)"
| "fmul NaN _ = NaN"
| "fmul _ NaN = NaN"
| "fmul (Finite a) PosInf = (if a = 0 then NaN else signed_inf (0 < a))"
| "fmul (Finite a) NegInf = (if a = 0 then NaN else signed_inf (a < 0))"
| "fmul PosInf (Finite b) = (if b = 0 then NaN else signed_inf (0 < b))"
| "fmul NegInf (Finite b) = (if b = 0 then NaN else signed_inf (b < 0))"
| "fmul PosInf PosInf = PosInf"
| "fmul NegInf NegInf = PosInf"
| "fmul PosInf NegInf = NegInf"
| "fmul NegInf PosInf = NegInf"

text \<open>
  Division of NumPy doubles: a zero divisor gives an infinity or NaN, not an exception.
\<close>

fun fdiv :: "pyfloat \<Rightarrow> pyfloat \<Rightarrow> pyfloat" where
  "fdiv (Finite a) (Finite b) =
     (if b = 0 then (if a = 0 then NaN else signed_inf (0 < a)) else float_of_real (a / b))"
| "fdiv NaN _ = NaN"
| "fdiv _ NaN = NaN"
| "fdiv (Finite a) _ = Finite 0"
| "fdiv PosInf (Finite b) = signed_inf (0 \<le> b)"
| "fdiv NegInf (Finite b) = signed_inf (b < 0)"
| "fdiv _ _ = NaN"

text \<open>\<^verbatim>\<open>numpy.log10\<close>.\<close>

fun np_log10 :: "pyfloat \<Rightarrow> pyfloat" where
  "np_log10 (Finite x) = (if 0 < x then Finite (log 10 x) else if x = 0 then NegInf else NaN)"
| "np_log10 PosInf = PosInf"
| "np_log10 _ = NaN"

subsection \<open>Exceptions\<close>

text \<open>
  An exception is its class; the message text is the interpreter's and is not modelled,
  so \<^verbatim>\<open>str(e)\<close> is the name of the class.
\<close>

datatype exn = AttributeError | TypeError | ValueError | OverflowError | ZeroDivisionError

fun str_of_exn :: "exn \<Rightarrow> string" where
  "str_of_exn AttributeError = ''AttributeError''"
| "str_of_exn TypeError = ''TypeError''"
| "str_of_exn ValueError = ''ValueError''"
| "str_of_exn OverflowError = ''OverflowError''"
| "str_of_exn ZeroDivisionError = ''ZeroDivisionError''"

text \<open>Division of Python floats: a zero divisor raises.\<close>

definition py_truediv :: "pyfloat \<Rightarrow> pyfloat \<Rightarrow> exn + pyfloat" where
  "py_truediv a b = (if feq b (Finite 0) then Inl ZeroDivisionError else Inr (fdiv a b))"

text \<open>
  Python 3's \<^verbatim>\<open>round(x)\<close> with one argument returns an integer and rounds a tie to
  the even neighbour. It raises \<^verbatim>\<open>ValueError\<close> on NaN and \<^verbatim>\<open>OverflowError\<close> on an
  infinity.
\<close>

fun py_round :: "pyfloat \<Rightarrow> exn + int" where
  "py_round (Finite x) =
     (let f = \<lfloor>x\<rfloor>; d = x - of_int f
      in Inr (if d < 1 / 2 then f
              else if 1 / 2 < d then f + 1
              else if even f then f else f + 1))"
| "py_round NaN = Inl ValueError"
| "py_round _ = Inl OverflowError"

section \<open>Wallet risk scoring: the scoring model\<close>

subsection \<open>Portfolio features\<close>

text \<open>
  The feature dictionary built by \<^verbatim>\<open>extract_features\<close> always has the same four keys,
  so it is a record.
\<close>

record features =
  total_usd :: pyfloat
  num_assets :: int
  largest_holding_usd :: pyfloat
  portfolio_concentration :: pyfloat

definition zero_features :: features where
  "zero_features =
     \<lparr>total_usd = Finite 0, num_assets = 0, largest_holding_usd = Finite 0,
      portfolio_concentration = Finite 0\<rparr>"

subsection \<open>Normalisers\<close>

text \<open>
  \<^verbatim>\<open>normalize_portfolio_size\<close>: the thresholds \<^verbatim>\<open>MIN_PORTFOLIO = 100\<close> and
  \<^verbatim>\<open>MAX_PORTFOLIO = 1000000\<close> are local constants of the function.
\<close>

definition MIN_PORTFOLIO :: real where
  "MIN_PORTFOLIO = 100"

definition MAX_PORTFOLIO :: real where
  "MAX_PORTFOLIO = 1000000"

definition normalize_portfolio_size :: "pyfloat \<Rightarrow> pyfloat" where
  "normalize_portfolio_size usd_value =
     (if fle usd_value (Finite 0) then Finite 0
      else
        let log_value = np_log10 (py_max usd_value (Finite 1));
            log_min = np_log10 (Finite MIN_PORTFOLIO);
            log_max = np_log10 (Finite MAX_PORTFOLIO);
            normalized = fdiv (fsub log_value log_min) (fsub log_max log_min)
        in py_min (py_max normalized (Finite 0)) (Finite 1))"

definition normalize_diversification :: "int \<Rightarrow> pyfloat" where
  "normalize_diversification n =
     (if n \<le> 1 then Finite 0
      else if n \<ge> 15 then Finite 1
      else Finite ((of_int n - 1) / 14))"

definition normalize_concentration :: "pyfloat \<Rightarrow> pyfloat" where
  "normalize_concentration concentration =
     (if fle (Finite 1) concentration then Finite 0
      else if fle concentration (Finite 0.1) then Finite 1
      else fsub (Finite 1) concentration)"

subsection \<open>Scorer\<close>

text \<open>
  \<^verbatim>\<open>compute_score\<close>: the weighted sum is rounded first, which can raise; the
  empty-portfolio override replaces the rounded value, and the result is clamped. The
  second \<^verbatim>\<open>return\<close> of the source is unreachable and has no counterpart.
\<close>

definition compute_score :: "features \<Rightarrow> exn + int" where
  "compute_score f =
     (let size_score = normalize_portfolio_size (total_usd f);
          diversity_score = normalize_diversification (num_assets f);
          concentration_score = normalize_concentration (portfolio_concentration f);
          weighted_score =
            fadd (fadd (fmul size_score (Finite 0.35)) (fmul diversity_score (Finite 0.35)))
              (fmul concentration_score (Finite 0.30))
      in case py_round (fmul (fsub (Finite 1) weighted_score) (Finite 1000)) of
           Inl e \<Rightarrow> Inl e
         | Inr rounded \<Rightarrow>
             let final_score = (if feq (total_usd f) (Finite 0) then 800 else rounded)
             in Inr (max 0 (min 1000 final_score)))"

section \<open>Wallet risk scoring: payloads and feature extraction\<close>

subsection \<open>JSON values and the Python operations used on them\<close>

text \<open>
  A payload is whatever \<^verbatim>\<open>response.json()\<close> returned: any JSON value. An object is
  an association list read with \<open>map_of\<close>. A number without fraction or exponent is a
  Python integer, any other number a float; the decoder reads a number beyond the range
  of a double, such as \<^verbatim>\<open>1e400\<close>, as an infinity, and accepts \<^verbatim>\<open>Infinity\<close> and
  \<^verbatim>\<open>NaN\<close>.
\<close>

datatype json =
    JNull
  | JBool bool
  | JInt int
  | JFloat pyfloat
  | JStr string
  | JArr "json list"
  | JObj "(string \<times> json) list"

text \<open>Truth value of a Python object, as tested by \<^verbatim>\<open>if not x\<close>.\<close>

fun truthy :: "json \<Rightarrow> bool" where
  "truthy JNull = False"
| "truthy (JBool b) = b"
| "truthy (JInt n) = (n \<noteq> 0)"
| "truthy (JFloat x) = (\<not> feq x (Finite 0))"
| "truthy (JStr s) = (s \<noteq> [])"
| "truthy (JArr xs) = (xs \<noteq> [])"
| "truthy (JObj kvs) = (kvs \<noteq> [])"

text \<open>\<^verbatim>\<open>x.get(key, default)\<close>: only a dict has the method.\<close>

fun py_get :: "json \<Rightarrow> string \<Rightarrow> json \<Rightarrow> exn + json" where
  "py_get (JObj kvs) k d = Inr (case map_of kvs k of None \<Rightarrow> d | Some v \<Rightarrow> v)"
| "py_get _ k d = Inl AttributeError"

text \<open>\<^verbatim>\<open>key in x\<close> for a string key: dict membership, list membership, substring.\<close>

fun py_in :: "string \<Rightarrow> json \<Rightarrow> exn + bool" where
  "py_in k (JObj kvs) = Inr (k \<in> set (map fst kvs))"
| "py_in k (JArr xs) = Inr (JStr k \<in> set xs)"
| "py_in k (JStr s) = Inr (sublist k s)"
| "py_in k _ = Inl TypeError"

text \<open>\<^verbatim>\<open>for item in x\<close>: a list yields its elements, a dict its keys, a string its characters.\<close>

fun py_iter :: "json \<Rightarrow> exn + json list" where
  "py_iter (JArr xs) = Inr xs"
| "py_iter (JObj kvs) = Inr (map JStr (remdups (map fst kvs)))"
| "py_iter (JStr s) = Inr (map (\<lambda>c. JStr [c]) s)"
| "py_iter _ = Inl TypeError"

text \<open>
  \<^verbatim>\<open>float(x)\<close>. An integer too large for a double raises \<^verbatim>\<open>OverflowError\<close>. The
  built-in's reading of a string is a parameter \<open>to_float\<close> (\<open>None\<close> where it raises
  \<^verbatim>\<open>ValueError\<close>).
\<close>

fun py_float :: "(string \<Rightarrow> pyfloat option) \<Rightarrow> json \<Rightarrow> exn + pyfloat" where
  "py_float to_float (JInt n) =
     (if float_overflow \<le> \<bar>of_int n\<bar> then Inl OverflowError else Inr (Finite (of_int n)))"
| "py_float to_float (JFloat x) = Inr x"
| "py_float to_float (JBool b) = Inr (Finite (if b then 1 else 0))"
| "py_float to_float (JStr s) =
     (case to_float s of None \<Rightarrow> Inl ValueError | Some x \<Rightarrow> Inr x)"
| "py_float to_float _ = Inl TypeError"

subsection \<open>Feature extractor\<close>

text \<open>The three updates of the feature dictionary for one positive quote.\<close>

definition add_holding :: "features \<Rightarrow> pyfloat \<Rightarrow> features" where
  "add_holding f quote =
     f\<lparr>total_usd := fadd (total_usd f) quote,
       num_assets := num_assets f + 1,
       largest_holding_usd := py_max (largest_holding_usd f) quote\<rparr>"

text \<open>
  The body of the per-item \<^verbatim>\<open>try\<close>. \<open>Inr\<close> is every way of reaching the next item
  (\<^verbatim>\<open>continue\<close> or the end of the body); \<open>Inl\<close> is an exception leaving the body:
  the \<^verbatim>\<open>AttributeError\<close> of \<^verbatim>\<open>item.get\<close>, or an exception of \<^verbatim>\<open>float\<close>
  that the inner \<^verbatim>\<open>except (ValueError, TypeError)\<close> does not catch.
\<close>

definition process_item_try :: "(string \<Rightarrow> pyfloat option) \<Rightarrow> json \<Rightarrow> features \<Rightarrow> exn + features" where
  "process_item_try to_float item f =
     (case py_get item ''quote'' JNull of
        Inl e \<Rightarrow> Inl e
      | Inr quote_raw \<Rightarrow>
          if quote_raw = JNull then Inr f
          else
            (case py_float to_float quote_raw of
               Inl e \<Rightarrow> (if e = ValueError \<or> e = TypeError then Inr f else Inl e)
             | Inr quote \<Rightarrow>
                 if flt (Finite 0) quote then Inr (add_holding f quote) else Inr f))"

text \<open>
  The per-item \<^verbatim>\<open>try\<close> with its handler. The handler formats a warning with
  \<^verbatim>\<open>item.get('contract_ticker_symbol', 'UNKNOWN')\<close> before it continues, so it raises
  again when the item has no \<^verbatim>\<open>get\<close>.
\<close>

definition process_item :: "(string \<Rightarrow> pyfloat option) \<Rightarrow> json \<Rightarrow> features \<Rightarrow> exn + features" where
  "process_item to_float item f =
     (case process_item_try to_float item f of
        Inr f' \<Rightarrow> Inr f'
      | Inl e \<Rightarrow>
          (case py_get item ''contract_ticker_symbol'' (JStr ''UNKNOWN'') of
             Inl e' \<Rightarrow> Inl e'
           | Inr symbol \<Rightarrow> Inr f))"

fun extract_loop :: "(string \<Rightarrow> pyfloat option) \<Rightarrow> json list \<Rightarrow> features \<Rightarrow> exn + features" where
  "extract_loop to_float [] f = Inr f"
| "extract_loop to_float (item # items) f =
     (case process_item to_float item f of
        Inl e \<Rightarrow> Inl e
      | Inr f' \<Rightarrow> extract_loop to_float items f')"

text \<open>The body of the outer \<^verbatim>\<open>try\<close> of \<^verbatim>\<open>extract_features\<close>.\<close>

definition extract_features_try :: "(string \<Rightarrow> pyfloat option) \<Rightarrow> json \<Rightarrow> exn + features" where
  "extract_features_try to_float data =
     (case py_get data ''data'' (JObj []) of
        Inl e \<Rightarrow> Inl e
      | Inr d \<Rightarrow>
          (case py_get d ''items'' (JArr []) of
             Inl e \<Rightarrow> Inl e
           | Inr items \<Rightarrow>
               if \<not> truthy items then Inr zero_features
               else
                 (case py_iter items of
                    Inl e \<Rightarrow> Inl e
                  | Inr its \<Rightarrow>
                      (case extract_loop to_float its zero_features of
                         Inl e \<Rightarrow> Inl e
                       | Inr f \<Rightarrow>
                           if flt (Finite 0) (total_usd f)
                           then
                             (case py_truediv (largest_holding_usd f) (total_usd f) of
                                Inl e \<Rightarrow> Inl e
                              | Inr c \<Rightarrow> Inr (f\<lparr>portfolio_concentration := c\<rparr>))
                           else Inr f))))"

text \<open>
  \<^verbatim>\<open>extract_features\<close>: the outer handler logs and returns the all-zero dictionary.
  The result type keeps the exception channel, so that "never raises" is a statement.
\<close>

definition extract_features :: "(string \<Rightarrow> pyfloat option) \<Rightarrow> json \<Rightarrow> exn + features" where
  "extract_features to_float data =
     (case extract_features_try to_float data of
        Inl e \<Rightarrow> Inr zero_features
      | Inr f \<Rightarrow> Inr f)"

section \<open>Wallet risk scoring: fetcher and batch runner\<close>

subsection \<open>The environment\<close>

text \<open>
  What one call of \<^verbatim>\<open>requests.get\<close> does: it raises a timeout, another request
  exception or some other exception, or it returns a response with a status code and a
  body; the body is \<open>None\<close> when \<^verbatim>\<open>response.json()\<close> cannot decode it.
\<close>

datatype http_result =
    RaisesTimeout
  | RaisesRequestException
  | RaisesException
  | Response int "json option"

text \<open>
  The network, the clock and the random generator are an environment over a world
  \<open>'w\<close>: each operation takes the world and returns the new one. Logging has no effect
  on any result and is left out.
\<close>

record 'w env =
  http_get :: "string \<Rightarrow> 'w \<Rightarrow> http_result \<times> 'w"
  sleep :: "real \<Rightarrow> 'w \<Rightarrow> 'w"
  random_random :: "'w \<Rightarrow> real \<times> 'w"
  str_to_float :: "string \<Rightarrow> pyfloat option"

subsection \<open>Fetcher\<close>

text \<open>How one pass through the body of the retry loop ends.\<close>

datatype attempt_end =
    Return json
  | Continue_rate_limited
  | Continue_errors
  | Backoff

text \<open>
  The checks on a decoded body: an empty body or one with \<^verbatim>\<open>errors\<close> logs
  \<^verbatim>\<open>data.get('errors', 'No data')\<close> and continues; a body with \<^verbatim>\<open>data\<close> is
  returned; anything else falls through to the backoff.
\<close>

definition check_body :: "json \<Rightarrow> exn + attempt_end" where
  "check_body data =
     (case (if \<not> truthy data then Inr True else py_in ''errors'' data) of
        Inl e \<Rightarrow> Inl e
      | Inr True \<Rightarrow>
          (case py_get data ''errors'' (JStr ''No data'') of
             Inl e \<Rightarrow> Inl e
           | Inr errors \<Rightarrow> Inr Continue_errors)
      | Inr False \<Rightarrow>
          (case py_in ''data'' data of
             Inl e \<Rightarrow> Inl e
           | Inr True \<Rightarrow> Inr (Return data)
           | Inr False \<Rightarrow> Inr Backoff))"

text \<open>
  The \<^verbatim>\<open>try\<close> of the retry loop with its three handlers, which all log and fall
  through to the backoff. \<^verbatim>\<open>raise_for_status\<close> raises for a status from 400 to 599.
\<close>

fun attempt_end_of :: "http_result \<Rightarrow> attempt_end" where
  "attempt_end_of RaisesTimeout = Backoff"
| "attempt_end_of RaisesRequestException = Backoff"
| "attempt_end_of RaisesException = Backoff"
| "attempt_end_of (Response status_code body) =
     (if status_code = 429 then Continue_rate_limited
      else if 400 \<le> status_code \<and> status_code < 600 then Backoff
      else
        (case body of
           None \<Rightarrow> Backoff
         | Some data \<Rightarrow> (case check_body data of Inl e \<Rightarrow> Backoff | Inr a \<Rightarrow> a)))"

text \<open>\<^verbatim>\<open>for attempt in range(retries)\<close>, over the list of attempt indices.\<close>

fun fetch_attempts :: "'w env \<Rightarrow> string \<Rightarrow> int \<Rightarrow> int list \<Rightarrow> 'w \<Rightarrow> json option \<times> 'w" where
  "fetch_attempts env address retries [] w = (None, w)"
| "fetch_attempts env address retries (attempt # rest) w =
     (let (r, w1) = http_get env address w
      in case attempt_end_of r of
           Return data \<Rightarrow> (Some data, w1)
         | Continue_rate_limited \<Rightarrow>
             fetch_attempts env address retries rest
               (sleep env (of_int (10 * (attempt + 1))) w1)
         | Continue_errors \<Rightarrow> fetch_attempts env address retries rest w1
         | Backoff \<Rightarrow>
             fetch_attempts env address retries rest
               (if attempt < retries - 1
                then sleep env (of_int (min (2 ^ nat attempt) 30)) w1
                else w1))"

definition fetch_wallet_data :: "'w env \<Rightarrow> string \<Rightarrow> int \<Rightarrow> 'w \<Rightarrow> json option \<times> 'w" where
  "fetch_wallet_data env address retries w =
     fetch_attempts env address retries [0..retries - 1] w"

subsection \<open>Batch runner\<close>

record wallet_result =
  wallet_id :: string
  score :: int

record 'w run_state =
  results :: "wallet_result list"
  failed_addresses :: "(string \<times> string) list"
  world :: 'w

text \<open>The two appends made whenever a wallet fails.\<close>

definition record_failure :: "string \<Rightarrow> string \<Rightarrow> 'w \<Rightarrow> 'w run_state \<Rightarrow> 'w run_state" where
  "record_failure addr reason w st =
     st\<lparr>failed_addresses := failed_addresses st @ [(addr, reason)],
        results := results st @ [\<lparr>wallet_id = addr, score = 0\<rparr>],
        world := w\<rparr>"

text \<open>
  The body of the loop over the wallets. \<^verbatim>\<open>main\<close> is only called from the
  \<^verbatim>\<open>__main__\<close> block, after \<^verbatim>\<open>import random\<close>, so the politeness delay after
  the append is a plain wait. \<^verbatim>\<open>if not data\<close> is true for \<^verbatim>\<open>None\<close> and for a
  falsy payload. The handler of the per-wallet \<^verbatim>\<open>try\<close> is the \<open>Inl\<close> branch; it
  is reached when \<^verbatim>\<open>compute_score\<close> raises.
\<close>

definition process_wallet :: "'w env \<Rightarrow> string \<Rightarrow> 'w run_state \<Rightarrow> 'w run_state" where
  "process_wallet env addr st =
     (let (fetched, w1) = fetch_wallet_data env addr 3 (world st)
      in case fetched of
           None \<Rightarrow> record_failure addr ''Failed to fetch data'' w1 st
         | Some data \<Rightarrow>
             if \<not> truthy data then record_failure addr ''Failed to fetch data'' w1 st
             else
               (case extract_features (str_to_float env) data of
                  Inl e \<Rightarrow> record_failure addr (str_of_exn e) w1 st
                | Inr f \<Rightarrow>
                    (case compute_score f of
                       Inl e \<Rightarrow> record_failure addr (str_of_exn e) w1 st
                     | Inr s \<Rightarrow>
                         let st1 = st\<lparr>results := results st @
                                      [\<lparr>wallet_id = addr, score = s\<rparr>]\<rparr>;
                             (r, w2) = random_random env w1
                         in st1\<lparr>world := sleep env (0.2 + r * 0.3) w2\<rparr>)))"

fun main_loop :: "'w env \<Rightarrow> string list \<Rightarrow> 'w run_state \<Rightarrow> 'w run_state" where
  "main_loop env [] st = st"
| "main_loop env (addr # rest) st = main_loop env rest (process_wallet env addr st)"

text \<open>
  \<^verbatim>\<open>main\<close> up to the end of the loop; what follows writes the two lists to files
  and logs a summary.
\<close>

definition main :: "'w env \<Rightarrow> string list \<Rightarrow> 'w \<Rightarrow> 'w run_state" where
  "main env wallet_addresses w =
     main_loop env wallet_addresses \<lparr>results = [], failed_addresses = [], world = w\<rparr>"

subsection \<open>A scripted environment\<close>

text \<open>
  A world that can be run: the responses the network will give, in order, and the trace
  of requests and sleeps so far. When the script is used up every request times out.
\<close>

datatype event = Requested string | Slept real

type_synonym script_world = "http_result list \<times> event list"

definition no_str_float :: "string \<Rightarrow> pyfloat option" where
  "no_str_float s = None"

definition script_http_get :: "string \<Rightarrow> script_world \<Rightarrow> http_result \<times> script_world" where
  "script_http_get address w =
     (case fst w of
        [] \<Rightarrow> (RaisesTimeout, ([], snd w @ [Requested address]))
      | r # rs \<Rightarrow> (r, (rs, snd w @ [Requested address])))"

definition script_sleep :: "real \<Rightarrow> script_world \<Rightarrow> script_world" where
  "script_sleep secs w = (fst w, snd w @ [Slept secs])"

definition script_random :: "script_world \<Rightarrow> real \<times> script_world" where
  "script_random w = (0, w)"

definition script_env :: "script_world env" where
  "script_env =
     \<lparr>http_get = script_http_get, sleep = script_sleep,
      random_random = script_random, str_to_float = no_str_float\<rparr>"

section \<open>Vocabulary of the specification\<close>

text \<open>
  The specification speaks of the balance items of a payload and of their quoted values
  that parse as numbers and are positive. These definitions follow its words, not the
  extractor's control flow.
\<close>

fun is_object :: "json \<Rightarrow> bool" where
  "is_object (JObj kvs) = True"
| "is_object _ = False"

text \<open>The list under \<^verbatim>\<open>data.items\<close>; empty when it is missing or not a list.\<close>

definition balance_items :: "json \<Rightarrow> json list" where
  "balance_items data =
     (case data of
        JObj kvs \<Rightarrow>
          (case map_of kvs ''data'' of
             Some (JObj d) \<Rightarrow> (case map_of d ''items'' of Some (JArr its) \<Rightarrow> its | _ \<Rightarrow> [])
           | _ \<Rightarrow> [])
      | _ \<Rightarrow> [])"

text \<open>The quoted value of an item, when the item has one and it parses as a number.\<close>

fun item_quote :: "(string \<Rightarrow> pyfloat option) \<Rightarrow> json \<Rightarrow> pyfloat option" where
  "item_quote to_float (JObj kvs) =
     (case map_of kvs ''quote'' of
        None \<Rightarrow> None
      | Some q \<Rightarrow> (case py_float to_float q of Inl e \<Rightarrow> None | Inr x \<Rightarrow> Some x))"
| "item_quote to_float _ = None"

definition positive_quotes_of :: "(string \<Rightarrow> pyfloat option) \<Rightarrow> json list \<Rightarrow> pyfloat list" where
  "positive_quotes_of to_float its =
     filter (flt (Finite 0)) (List.map_filter (item_quote to_float) its)"

definition positive_quotes :: "(string \<Rightarrow> pyfloat option) \<Rightarrow> json \<Rightarrow> pyfloat list" where
  "positive_quotes to_float data = positive_quotes_of to_float (balance_items data)"

subsection \<open>Concrete payloads\<close>

definition payload_of_items :: "json list \<Rightarrow> json" where
  "payload_of_items its = JObj [(''data'', JObj [(''items'', JArr its)])]"

definition holding :: "json \<Rightarrow> string \<Rightarrow> json" where
  "holding q symbol = JObj [(''quote'', q), (''contract_ticker_symbol'', JStr symbol)]"

definition two_holdings_payload :: json where
  "two_holdings_payload = payload_of_items [holding (JInt 500000) ''ETH'', holding (JInt 500000) ''USDC'']"

definition payload_with_null_item :: json where
  "payload_with_null_item = payload_of_items [holding (JInt 5) ''ETH'', JNull]"

definition payload_with_string_item :: json where
  "payload_with_string_item = payload_of_items [JStr ''dust'', holding (JInt 7) ''USDC'']"

definition payload_with_infinite_quote :: json where
  "payload_with_infinite_quote = payload_of_items [holding (JFloat PosInf) ''ETH'']"

definition huge_integer :: int where
  "huge_integer = 10 ^ 400"

definition payload_with_huge_integer :: json where
  "payload_with_huge_integer = payload_of_items [holding (JInt huge_integer) ''ETH'']"

definition payload_with_unparseable_quote :: json where
  "payload_with_unparseable_quote =
     payload_of_items [holding (JInt 5) ''ETH'', holding (JStr ''n/a'') ''USDC'']"

definition infinite_features :: features where
  "infinite_features =
     \<lparr>total_usd = PosInf, num_assets = 1, largest_holding_usd = PosInf,
      portfolio_concentration = NaN\<rparr>"

section \<open>Properties of the floating-point operations\<close>

lemma float_overflow_large: "(10::real) ^ 300 < float_overflow"
  by (simp add: float_overflow_def)

lemma float_of_real_Finite:
  assumes "- (10 ^ 300) \<le> x" and "x \<le> 10 ^ 300"
  shows "float_of_real x = Finite x"
  using assms float_overflow_large by (simp add: float_of_real_def)

lemma float_of_real_small [simp]:
  assumes "- 1000000 \<le> x" and "x \<le> 1000000"
  shows "float_of_real x = Finite x"
proof -
  have "(1000000::real) \<le> 10 ^ 300" by simp
  with assms show ?thesis
    by (intro float_of_real_Finite) linarith+
qed

lemma small_integer: "\<not> float_overflow \<le> 1000000"
  using float_overflow_large by (simp add: order_less_trans [of 1000000 "10 ^ 300"] not_le)

lemma float_overflow_above: "x \<le> 1000000 \<Longrightarrow> \<not> float_overflow \<le> x"
  using small_integer by linarith

lemma fle_Finite [simp]: "fle (Finite a) (Finite b) = (a \<le> b)"
  by (auto simp: fle_def)

lemma fle_simps [simp]:
  "fle NaN x = False" "fle x NaN = False"
  "fle NegInf (Finite b) = True" "fle (Finite a) PosInf = True"
  "fle PosInf (Finite b) = False" "fle (Finite a) NegInf = False"
  "fle NegInf PosInf = True" "fle PosInf NegInf = False"
  "fle PosInf PosInf = True" "fle NegInf NegInf = True"
  by (cases x; simp add: fle_def)+

lemma fadd_NaN [simp]: "fadd x NaN = NaN"
  by (cases x) simp_all

lemma fmul_NaN [simp]: "fmul x NaN = NaN"
  by (cases x) simp_all

section \<open>Properties of the scoring model\<close>

lemma log10_MIN_PORTFOLIO: "log 10 MIN_PORTFOLIO = 2"
proof -
  have "log 10 ((10::real) ^ 2) = 2"
    by (subst log_nat_power) simp_all
  then show ?thesis
    by (simp add: MIN_PORTFOLIO_def)
qed

lemma log10_MAX_PORTFOLIO: "log 10 MAX_PORTFOLIO = 6"
proof -
  have "log 10 ((10::real) ^ 6) = 6"
    by (subst log_nat_power) simp_all
  then show ?thesis
    by (simp add: MAX_PORTFOLIO_def)
qed

lemma log_thresholds [simp]:
  "np_log10 (Finite MIN_PORTFOLIO) = Finite 2" "np_log10 (Finite MAX_PORTFOLIO) = Finite 6"
  using log10_MIN_PORTFOLIO log10_MAX_PORTFOLIO
  by (simp_all add: MIN_PORTFOLIO_def MAX_PORTFOLIO_def)

lemma clamp_of_quotient:
  assumes "- 2 \<le> v"
  shows "py_min (py_max (fdiv (float_of_real v) (Finite 4)) (Finite 0)) (Finite 1)
           = Finite (min (max (v / 4) 0) 1)"
proof (cases "float_overflow \<le> v")
  case True
  moreover have "4 < float_overflow"
    using float_overflow_large by (simp add: order_less_trans [of 4 "10 ^ 300"])
  ultimately have "1 \<le> v / 4" by simp
  then have "min (max (v / 4) 0) 1 = 1" by simp
  with True show ?thesis
    by (simp add: float_of_real_def signed_inf_def py_max_def py_min_def)
next
  case False
  have big: "2 < float_overflow"
    using float_overflow_large by (simp add: order_less_trans [of 2 "10 ^ 300"])
  from False assms big have a: "float_of_real v = Finite v"
    by (simp add: float_of_real_def)
  from False assms big have b: "float_of_real (v / 4) = Finite (v / 4)"
    by (simp add: float_of_real_def)
  show ?thesis
    by (simp add: a b py_max_def py_min_def min_def max_def)
qed

lemma log_denominator:
  "fsub (np_log10 (Finite MAX_PORTFOLIO)) (np_log10 (Finite MIN_PORTFOLIO)) = Finite 4"
  by (simp only: log_thresholds fsub_def fneg.simps fadd.simps) simp

lemma normalize_portfolio_size_pos:
  assumes "0 < x"
  shows "normalize_portfolio_size (Finite x)
           = Finite (min (max ((log 10 (max x 1) - 2) / 4) 0) 1)"
proof -
  have m: "py_max (Finite x) (Finite 1) = Finite (max x 1)"
    by (simp add: py_max_def max_def)
  have "0 < max x 1"
    by (simp add: max_def)
  then have l: "np_log10 (Finite (max x 1)) = Finite (log 10 (max x 1))"
    by simp
  have "0 \<le> log 10 (max x 1)"
    by simp
  then have v: "- 2 \<le> log 10 (max x 1) - 2"
    by simp
  have n: "fsub (Finite (log 10 (max x 1))) (Finite 2) = float_of_real (log 10 (max x 1) - 2)"
    by (simp add: fsub_def)
  have d: "fsub (Finite 6) (Finite 2) = Finite 4"
    by (simp add: fsub_def)
  have "\<not> fle (Finite x) (Finite 0)"
    using assms by simp
  then show ?thesis
    unfolding normalize_portfolio_size_def Let_def m l log_thresholds n d
    by (simp only: if_False clamp_of_quotient [OF v])
qed

lemma normalize_portfolio_size_nonpos:
  "x \<le> 0 \<Longrightarrow> normalize_portfolio_size (Finite x) = Finite 0"
  by (simp add: normalize_portfolio_size_def)

lemma normalize_portfolio_size_NegInf: "normalize_portfolio_size NegInf = Finite 0"
  by (simp add: normalize_portfolio_size_def)

lemma normalize_portfolio_size_PosInf: "normalize_portfolio_size PosInf = Finite 1"
  unfolding normalize_portfolio_size_def Let_def log_thresholds
  by (simp add: py_max_def py_min_def fsub_def signed_inf_def)

lemma normalize_portfolio_size_NaN: "normalize_portfolio_size NaN = NaN"
  unfolding normalize_portfolio_size_def Let_def log_thresholds
  by (simp add: py_max_def py_min_def fsub_def)

lemma normalize_portfolio_size_Finite:
  "normalize_portfolio_size (Finite x) =
     Finite (if x \<le> 0 then 0 else min (max ((log 10 (max x 1) - 2) / 4) 0) 1)"
  by (simp add: normalize_portfolio_size_nonpos normalize_portfolio_size_pos)

lemma size_curve_mono:
  assumes "x \<le> y"
  shows "(if x \<le> 0 then 0 else min (max ((log 10 (max x 1) - 2) / 4) 0) 1)
       \<le> (if y \<le> 0 then 0 else min (max ((log 10 (max y 1) - 2) / 4) 0) (1::real))"
proof (cases "x \<le> 0")
  case True
  then show ?thesis by simp
next
  case False
  then have px: "0 < x" and py: "0 < y"
    using assms by simp_all
  have "max x 1 \<le> max y 1"
    using assms by simp
  then have "log 10 (max x 1) \<le> log 10 (max y 1)"
    by simp
  then have "(log 10 (max x 1) - 2) / 4 \<le> (log 10 (max y 1) - 2) / 4"
    by simp
  then have "min (max ((log 10 (max x 1) - 2) / 4) 0) 1
          \<le> min (max ((log 10 (max y 1) - 2) / 4) 0) 1"
    by (meson max.mono min.mono order_refl)
  then show ?thesis
    using px py by simp
qed

lemma normalize_portfolio_size_top:
  assumes "1000000 \<le> x"
  shows "normalize_portfolio_size (Finite x) = Finite 1"
proof -
  have pos: "0 < x" and m: "max x 1 = x"
    using assms by simp_all
  have "log 10 MAX_PORTFOLIO \<le> log 10 x"
    using assms by (simp add: MAX_PORTFOLIO_def)
  then have "6 \<le> log 10 x"
    by (simp add: log10_MAX_PORTFOLIO)
  then have "1 \<le> (log 10 x - 2) / 4"
    by simp
  then show ?thesis
    using pos by (simp add: normalize_portfolio_size_pos m)
qed

lemma normalize_portfolio_size_range:
  assumes "x \<noteq> NaN"
  shows "\<exists>s. normalize_portfolio_size x = Finite s \<and> 0 \<le> s \<and> s \<le> 1"
  using assms
  by (cases x)
    (simp_all add: normalize_portfolio_size_Finite normalize_portfolio_size_PosInf
      normalize_portfolio_size_NegInf)

lemma normalize_portfolio_size_mono:
  assumes "fle x y"
  shows "fle (normalize_portfolio_size x) (normalize_portfolio_size y)"
proof (cases x)
  case fx: (Finite a)
  show ?thesis
  proof (cases y)
    case (Finite b)
    with fx assms have "a \<le> b" by simp
    then show ?thesis
      using size_curve_mono [of a b]
      by (simp only: fx Finite normalize_portfolio_size_Finite fle_Finite)
  next
    case PosInf
    then show ?thesis
      using normalize_portfolio_size_range [of x] fx
      by (auto simp: normalize_portfolio_size_PosInf)
  qed (use assms fx in simp_all)
next
  case PosInf
  with assms have "y = PosInf" by (cases y) simp_all
  with PosInf show ?thesis by (simp add: normalize_portfolio_size_PosInf)
next
  case NegInf
  with assms have "y \<noteq> NaN" by (cases y) simp_all
  then show ?thesis
    using normalize_portfolio_size_range [of y] NegInf
    by (auto simp: normalize_portfolio_size_NegInf)
next
  case NaN
  with assms show ?thesis by simp
qed

text \<open>
  Claim C8. \<^verbatim>\<open>normalize_portfolio_size\<close> returns 0 for every value that is at most 0,
  returns 1 for every value that is at least 1,000,000, and is monotonically
  non-decreasing over the whole input domain; for a positive finite value it is the
  interpolation of \<open>log 10 (max x 1)\<close> between \<open>log 10 100 = 2\<close> and
  \<open>log 10 1000000 = 6\<close>, clamped to the interval from 0 to 1. The statement covers the
  infinities: minus infinity is at most 0, plus infinity at least 1,000,000.
\<close>

theorem normalize_portfolio_size_claim:
  "(fle a (Finite 0) \<longrightarrow> normalize_portfolio_size a = Finite 0)
   \<and> (fle (Finite 1000000) b \<longrightarrow> normalize_portfolio_size b = Finite 1)
   \<and> (fle x y \<longrightarrow> fle (normalize_portfolio_size x) (normalize_portfolio_size y))
   \<and> (0 < c \<longrightarrow>
        normalize_portfolio_size (Finite c)
          = Finite (min (max ((log 10 (max c 1) - 2) / 4) 0) 1))"
proof -
  have 1: "normalize_portfolio_size a = Finite 0" if "fle a (Finite 0)"
    using that
    by (cases a) (simp_all add: normalize_portfolio_size_nonpos normalize_portfolio_size_NegInf)
  have 2: "normalize_portfolio_size b = Finite 1" if "fle (Finite 1000000) b"
    using that
    by (cases b) (simp_all add: normalize_portfolio_size_top normalize_portfolio_size_PosInf)
  from 1 2 normalize_portfolio_size_mono normalize_portfolio_size_pos show ?thesis
    by blast
qed

theorem normalize_portfolio_size_claim_witness:
  "fle (Finite (-3)) (Finite 0) \<and> normalize_portfolio_size (Finite (-3)) = Finite 0
   \<and> fle (Finite 1000000) (Finite 2500000)
   \<and> normalize_portfolio_size (Finite 2500000) = Finite 1
   \<and> fle (Finite 50) (Finite 5000)
   \<and> fle (normalize_portfolio_size (Finite 50)) (normalize_portfolio_size (Finite 5000))
   \<and> (0::real) < 100 \<and> normalize_portfolio_size (Finite 100) = Finite 0"
proof -
  have "log 10 ((10::real) ^ 2) = 2"
    by (subst log_nat_power) simp_all
  then have l: "log 10 (100::real) = 2"
    by simp
  show ?thesis
    using normalize_portfolio_size_claim [of "Finite (-3)" "Finite 2500000" "Finite 50" "Finite 5000" 100]
    by (simp add: l)
qed

lemma normalize_diversification_range:
  "\<exists>d. normalize_diversification n = Finite d \<and> 0 \<le> d \<and> d \<le> 1"
proof -
  let ?d = "if n \<le> 1 then 0 else if 15 \<le> n then 1 else (real_of_int n - 1) / 14"
  have "normalize_diversification n = Finite ?d"
    by (simp add: normalize_diversification_def)
  moreover have "0 \<le> ?d" and "?d \<le> 1"
    by simp_all
  ultimately show ?thesis
    by blast
qed

lemma normalize_concentration_range:
  assumes "c \<noteq> NaN"
  shows "\<exists>v. normalize_concentration c = Finite v \<and> 0 \<le> v \<and> v \<le> 1"
proof (cases c)
  case (Finite a)
  then show ?thesis
    by (simp add: normalize_concentration_def fsub_def)
qed (use assms in \<open>simp_all add: normalize_concentration_def\<close>)

lemma normalize_concentration_NaN: "normalize_concentration NaN = NaN"
  by (simp add: normalize_concentration_def fsub_def)

lemma scaled_score:
  assumes "0 \<le> s" "s \<le> 1" "0 \<le> d" "d \<le> 1" "0 \<le> v" "v \<le> 1"
  shows "\<exists>z. fmul (fsub (Finite 1)
            (fadd (fadd (fmul (Finite s) (Finite 0.35)) (fmul (Finite d) (Finite 0.35)))
               (fmul (Finite v) (Finite 0.30)))) (Finite 1000) = Finite z"
proof -
  have a: "fmul (Finite s) (Finite 0.35) = Finite (s * 0.35)"
    using assms by simp
  have b: "fmul (Finite d) (Finite 0.35) = Finite (d * 0.35)"
    using assms by simp
  have c: "fmul (Finite v) (Finite 0.30) = Finite (v * 0.30)"
    using assms by simp
  have ab: "fadd (Finite (s * 0.35)) (Finite (d * 0.35)) = Finite (s * 0.35 + d * 0.35)"
    using assms by simp
  have abc: "fadd (Finite (s * 0.35 + d * 0.35)) (Finite (v * 0.30))
      = Finite (s * 0.35 + d * 0.35 + v * 0.30)"
    using assms by simp
  have w: "fsub (Finite 1) (Finite (s * 0.35 + d * 0.35 + v * 0.30))
      = Finite (1 - (s * 0.35 + d * 0.35 + v * 0.30))"
    using assms by (simp add: fsub_def)
  have z: "fmul (Finite (1 - (s * 0.35 + d * 0.35 + v * 0.30))) (Finite 1000)
      = Finite ((1 - (s * 0.35 + d * 0.35 + v * 0.30)) * 1000)"
    using assms by simp
  show ?thesis
    by (simp only: a b c ab abc w z) blast
qed

lemma py_round_Finite: "\<exists>r. py_round (Finite z) = Inr r"
  by (simp add: Let_def)

lemma compute_score_returns:
  assumes "total_usd f \<noteq> NaN" and "portfolio_concentration f \<noteq> NaN"
  shows "\<exists>r. compute_score f =
           Inr (max 0 (min 1000 (if feq (total_usd f) (Finite 0) then 800 else r)))"
proof -
  obtain s where s: "normalize_portfolio_size (total_usd f) = Finite s" "0 \<le> s" "s \<le> 1"
    using normalize_portfolio_size_range [OF assms(1)] by blast
  obtain d where d: "normalize_diversification (num_assets f) = Finite d" "0 \<le> d" "d \<le> 1"
    using normalize_diversification_range by blast
  obtain v where v: "normalize_concentration (portfolio_concentration f) = Finite v"
      "0 \<le> v" "v \<le> 1"
    using normalize_concentration_range [OF assms(2)] by blast
  obtain z where z: "fmul (fsub (Finite 1)
            (fadd (fadd (fmul (Finite s) (Finite 0.35)) (fmul (Finite d) (Finite 0.35)))
               (fmul (Finite v) (Finite 0.30)))) (Finite 1000) = Finite z"
    using scaled_score [OF s(2,3) d(2,3) v(2,3)] by blast
  obtain r where r: "py_round (Finite z) = Inr r"
    using py_round_Finite by blast
  have "compute_score f =
           Inr (max 0 (min 1000 (if feq (total_usd f) (Finite 0) then 800 else r)))"
    unfolding compute_score_def Let_def s(1) d(1) v(1) z r by simp
  then show ?thesis
    by blast
qed

lemma compute_score_NaN_concentration:
  assumes "portfolio_concentration f = NaN"
  shows "compute_score f = Inl ValueError"
  unfolding compute_score_def Let_def assms normalize_concentration_NaN
  by (simp add: fsub_def)

lemma compute_score_NaN_total:
  assumes "total_usd f = NaN"
  shows "compute_score f = Inl ValueError"
proof -
  obtain d where d: "normalize_diversification (num_assets f) = Finite d"
    using normalize_diversification_range by blast
  show ?thesis
    unfolding compute_score_def Let_def assms normalize_portfolio_size_NaN d
    by (simp add: fsub_def)
qed

lemma zero_features_sel:
  "total_usd zero_features = Finite 0"
  "num_assets zero_features = 0"
  "largest_holding_usd zero_features = Finite 0"
  "portfolio_concentration zero_features = Finite 0"
  by (simp_all add: zero_features_def)

lemma compute_score_zero_features: "compute_score zero_features = Inr 800"
  using compute_score_returns [of zero_features] by (simp add: zero_features_sel)

text \<open>
  Claim C3, as amended. For every feature record whose \<open>total_usd\<close> and
  \<open>portfolio_concentration\<close> are not NaN, whatever else their values and that of
  \<open>num_assets\<close> are, \<^verbatim>\<open>compute_score\<close> returns an integer between 0 and 1000, both
  bounds included.
\<close>

theorem compute_score_bounds:
  assumes "total_usd f \<noteq> NaN" and "portfolio_concentration f \<noteq> NaN"
  shows "\<exists>s. compute_score f = Inr s \<and> 0 \<le> s \<and> s \<le> 1000"
  using compute_score_returns [OF assms] by auto

theorem compute_score_bounds_witness:
  "total_usd \<lparr>total_usd = PosInf, num_assets = 1000000000, largest_holding_usd = Finite 3,
      portfolio_concentration = Finite 7\<rparr> \<noteq> NaN
   \<and> portfolio_concentration \<lparr>total_usd = PosInf, num_assets = 1000000000,
      largest_holding_usd = Finite 3, portfolio_concentration = Finite 7\<rparr> \<noteq> NaN
   \<and> (\<exists>s. compute_score \<lparr>total_usd = PosInf, num_assets = 1000000000,
      largest_holding_usd = Finite 3, portfolio_concentration = Finite 7\<rparr> = Inr s
        \<and> 0 \<le> s \<and> s \<le> 1000)"
  using compute_score_bounds [of "\<lparr>total_usd = PosInf, num_assets = 1000000000,
      largest_holding_usd = Finite 3, portfolio_concentration = Finite 7\<rparr>"]
  by simp

section \<open>Properties of the feature extractor\<close>

lemma process_item_not_object:
  "\<not> is_object item \<Longrightarrow> process_item to_float item f = Inl AttributeError"
  by (cases item) (simp_all add: process_item_def process_item_try_def)

lemma extract_loop_first_not_object:
  "\<not> is_object item \<Longrightarrow> extract_loop to_float (item # its) f = Inl AttributeError"
  by (simp add: process_item_not_object)

lemma extract_loop_strings:
  assumes "ks \<noteq> []"
  shows "extract_loop to_float (map JStr ks) f = Inl AttributeError"
  using assms by (cases ks) (simp_all add: process_item_not_object)

lemma extract_loop_chars:
  assumes "str \<noteq> []"
  shows "extract_loop to_float (map (\<lambda>c. JStr [c]) str) f = Inl AttributeError"
  using assms by (cases str) (simp_all add: process_item_not_object)

lemma items_not_list:
  assumes "\<And>its. items \<noteq> JArr its"
  shows "extract_features to_float (JObj [(''data'', JObj [(''items'', items)])])
           = Inr zero_features"
proof (cases items)
  case (JObj kvs)
  show ?thesis
  proof (cases "kvs = []")
    case True
    then show ?thesis
      by (simp add: JObj extract_features_def extract_features_try_def)
  next
    case False
    then have "remdups (map fst kvs) \<noteq> []" by simp
    then have "extract_loop to_float (map JStr (remdups (map fst kvs))) zero_features
        = Inl AttributeError"
      by (rule extract_loop_strings)
    then show ?thesis
      by (simp add: JObj extract_features_def extract_features_try_def)
  qed
next
  case (JStr str)
  show ?thesis
  proof (cases "str = []")
    case True
    then show ?thesis
      by (simp add: JStr extract_features_def extract_features_try_def)
  next
    case False
    then have "extract_loop to_float (map (\<lambda>c. JStr [c]) str) zero_features
        = Inl AttributeError"
      by (rule extract_loop_chars)
    then show ?thesis
      by (simp add: JStr extract_features_def extract_features_try_def)
  qed
next
  case (JArr its)
  with assms show ?thesis by blast
qed (simp_all add: extract_features_def extract_features_try_def)

lemma balance_items_empty:
  assumes "balance_items data = []"
  shows "extract_features to_float data = Inr zero_features"
proof (cases data)
  case (JObj kvs)
  show ?thesis
  proof (cases "map_of kvs ''data''")
    case None
    then show ?thesis
      by (simp add: JObj extract_features_def extract_features_try_def)
  next
    case (Some v)
    show ?thesis
    proof (cases v)
      case d: (JObj d)
      show ?thesis
      proof (cases "map_of d ''items''")
        case None
        then show ?thesis
          by (simp add: JObj Some d extract_features_def extract_features_try_def)
      next
        case items: (Some items)
        have eq: "extract_features to_float data =
            extract_features to_float (JObj [(''data'', JObj [(''items'', items)])])"
          by (simp add: JObj Some d items extract_features_def extract_features_try_def)
        show ?thesis
        proof (cases "\<exists>its. items = JArr its")
          case True
          then obtain its where its: "items = JArr its" by blast
          with assms have "its = []"
            by (simp add: JObj Some d items balance_items_def)
          then show ?thesis
            by (simp add: JObj Some d items its extract_features_def extract_features_try_def)
        next
          case False
          then show ?thesis
            unfolding eq by (intro items_not_list) blast
        qed
      qed
    qed (simp_all add: JObj Some extract_features_def extract_features_try_def)
  qed
qed (simp_all add: extract_features_def extract_features_try_def)

text \<open>
  Claim C7. \<^verbatim>\<open>extract_features\<close> never raises: for every payload it returns a
  feature record; a payload whose list of balance items is empty or missing yields the
  all-zero record; and whenever the body of its \<^verbatim>\<open>try\<close> raises, the all-zero
  record is returned in place of the exception.
\<close>

theorem extract_features_never_raises:
  "(\<exists>f. extract_features to_float data = Inr f)
   \<and> (balance_items data = [] \<longrightarrow> extract_features to_float data = Inr zero_features)
   \<and> (extract_features_try to_float data = Inl e \<longrightarrow>
        extract_features to_float data = Inr zero_features)"
proof -
  have a: "\<exists>f. extract_features to_float data = Inr f"
    by (cases "extract_features_try to_float data") (simp_all add: extract_features_def)
  have c: "extract_features_try to_float data = Inl e \<longrightarrow>
        extract_features to_float data = Inr zero_features"
    by (simp add: extract_features_def)
  from a c balance_items_empty show ?thesis
    by blast
qed

theorem extract_features_never_raises_witness:
  "balance_items (JObj []) = []
   \<and> extract_features no_str_float (JObj []) = Inr zero_features
   \<and> extract_features_try no_str_float (JArr [JInt 1]) = Inl AttributeError
   \<and> extract_features no_str_float (JArr [JInt 1]) = Inr zero_features"
proof -
  have a: "balance_items (JObj []) = []"
    by (simp add: balance_items_def)
  have b: "extract_features_try no_str_float (JArr [JInt 1]) = Inl AttributeError"
    by (simp add: extract_features_try_def)
  show ?thesis
    using a b extract_features_never_raises [of no_str_float "JObj []"]
      extract_features_never_raises [of no_str_float "JArr [JInt 1]" AttributeError]
    by simp
qed

lemma py_float_small:
  assumes "\<bar>n\<bar> \<le> 1000000"
  shows "py_float to_float (JInt n) = Inr (Finite (of_int n))"
proof -
  have "\<bar>real_of_int n\<bar> \<le> 1000000"
    using assms by linarith
  then have "\<not> float_overflow \<le> \<bar>real_of_int n\<bar>"
    using small_integer by linarith
  then show ?thesis by simp
qed

lemma holding_step:
  assumes "py_float to_float q = Inr x" and "q \<noteq> JNull"
  shows "process_item to_float (holding q symbol) f =
           Inr (if flt (Finite 0) x then add_holding f x else f)"
  using assms by (simp add: process_item_def process_item_try_def holding_def)

lemma holding_overflow_step:
  assumes "py_float to_float q = Inl OverflowError" and "q \<noteq> JNull"
  shows "process_item to_float (holding q symbol) f = Inr f"
  using assms by (simp add: process_item_def process_item_try_def holding_def)

lemma extract_items:
  assumes "its \<noteq> []"
  shows "extract_features_try to_float (payload_of_items its) =
     (case extract_loop to_float its zero_features of
        Inl e \<Rightarrow> Inl e
      | Inr f \<Rightarrow>
          if flt (Finite 0) (total_usd f)
          then (case py_truediv (largest_holding_usd f) (total_usd f) of
                  Inl e \<Rightarrow> Inl e
                | Inr c \<Rightarrow> Inr (f\<lparr>portfolio_concentration := c\<rparr>))
          else Inr f)"
  using assms by (simp add: extract_features_try_def payload_of_items_def)

lemma balance_items_payload: "balance_items (payload_of_items its) = its"
  by (simp add: balance_items_def payload_of_items_def)

lemma item_quote_holding:
  "item_quote to_float (holding q symbol) =
     (case py_float to_float q of Inl e \<Rightarrow> None | Inr x \<Rightarrow> Some x)"
  by (simp add: holding_def)

text \<open>
  Claim C9. For the payload with exactly the two items of quote 500000 (ETH and USDC),
  \<^verbatim>\<open>extract_features\<close> returns total 1,000,000, two assets, largest holding
  500,000 and concentration 0.5, and \<^verbatim>\<open>compute_score\<close> of these features is 475.
\<close>

theorem two_holdings_scenario:
  "extract_features to_float two_holdings_payload =
     Inr \<lparr>total_usd = Finite 1000000, num_assets = 2, largest_holding_usd = Finite 500000,
          portfolio_concentration = Finite (1 / 2)\<rparr>
   \<and> compute_score \<lparr>total_usd = Finite 1000000, num_assets = 2,
          largest_holding_usd = Finite 500000, portfolio_concentration = Finite (1 / 2)\<rparr>
       = Inr 475"
proof -
  have q: "py_float to_float (JInt 500000) = Inr (Finite 500000)"
    using py_float_small [of 500000 to_float] by simp
  have loop: "extract_loop to_float [holding (JInt 500000) ''ETH'', holding (JInt 500000) ''USDC'']
      zero_features =
      Inr \<lparr>total_usd = Finite 1000000, num_assets = 2, largest_holding_usd = Finite 500000,
           portfolio_concentration = Finite 0\<rparr>"
    by (simp add: holding_step [OF q] add_holding_def zero_features_def py_max_def)
  have "extract_features_try to_float two_holdings_payload =
     Inr \<lparr>total_usd = Finite 1000000, num_assets = 2, largest_holding_usd = Finite 500000,
          portfolio_concentration = Finite (1 / 2)\<rparr>"
    unfolding two_holdings_payload_def
    by (subst extract_items, simp, subst loop, simp add: py_truediv_def)
  then have "extract_features to_float two_holdings_payload =
     Inr \<lparr>total_usd = Finite 1000000, num_assets = 2, largest_holding_usd = Finite 500000,
          portfolio_concentration = Finite (1 / 2)\<rparr>"
    by (simp add: extract_features_def)
  moreover have "compute_score \<lparr>total_usd = Finite 1000000, num_assets = 2,
      largest_holding_usd = Finite 500000, portfolio_concentration = Finite (1 / 2)\<rparr> = Inr 475"
  proof -
    have s: "normalize_portfolio_size (Finite 1000000) = Finite 1"
      by (rule normalize_portfolio_size_top) simp
    have d: "normalize_diversification 2 = Finite (1 / 14)"
      by (simp add: normalize_diversification_def)
    have c: "normalize_concentration (Finite (1 / 2)) = Finite (1 / 2)"
      by (simp add: normalize_concentration_def fsub_def)
    have w: "fmul (fsub (Finite 1)
            (fadd (fadd (fmul (Finite 1) (Finite 0.35)) (fmul (Finite (1 / 14)) (Finite 0.35)))
               (fmul (Finite (1 / 2)) (Finite 0.30)))) (Finite 1000) = Finite (of_int 475)"
      by (simp add: fsub_def)
    have r: "py_round (Finite (of_int 475)) = Inr 475"
      by (simp add: Let_def)
    show ?thesis
      unfolding compute_score_def Let_def features.simps s d c w r by simp
  qed
  ultimately show ?thesis
    by simp
qed

lemma py_float_5: "py_float to_float (JInt 5) = Inr (Finite 5)"
  using py_float_small [of 5 to_float] by simp

lemma py_float_7: "py_float to_float (JInt 7) = Inr (Finite 7)"
  using py_float_small [of 7 to_float] by simp

lemma py_float_huge: "py_float to_float (JInt huge_integer) = Inl OverflowError"
proof -
  have "float_overflow \<le> (2::real) ^ 1024"
    by (simp add: float_overflow_def)
  also have "\<dots> \<le> 10 ^ 400"
    by simp
  finally have "float_overflow \<le> \<bar>real_of_int huge_integer\<bar>"
    by (simp add: huge_integer_def)
  then show ?thesis
    by (simp only: py_float.simps if_True)
qed

lemma huge_integer_skipped:
  "extract_features to_float payload_with_huge_integer = Inr zero_features"
proof -
  have "extract_features_try to_float payload_with_huge_integer = Inr zero_features"
    unfolding payload_with_huge_integer_def
    by (subst extract_items, simp)
      (simp add: holding_overflow_step [OF py_float_huge] zero_features_sel)
  then show ?thesis
    by (simp add: extract_features_def)
qed

text \<open>
  Claim C6. The features should be the sum, the count and the maximum of the items'
  quoted values that parse as numbers and are positive. The code breaks this when an item
  is not an object: \<^verbatim>\<open>item.get\<close> raises, the per-item handler, which is written to
  log and continue, calls \<^verbatim>\<open>item.get\<close> again in its log message and raises itself,
  and the outer handler discards the holdings counted so far. For the items
  \<^verbatim>\<open>[{quote: 5}, null]\<close> the extractor returns the all-zero record, where the claim
  gives total 5. Where the handler is not needed or works, a bad item is skipped and the
  totals are kept: an unparseable quote (third conjunct) and an integer too large for a
  float (\<open>huge_integer_skipped\<close>).
\<close>

theorem null_item_discards_holdings:
  "extract_features no_str_float payload_with_null_item = Inr zero_features
   \<and> positive_quotes no_str_float payload_with_null_item = [Finite 5]
   \<and> extract_features no_str_float payload_with_unparseable_quote =
       Inr \<lparr>total_usd = Finite 5, num_assets = 1, largest_holding_usd = Finite 5,
            portfolio_concentration = Finite 1\<rparr>"
proof -
  have a: "extract_features no_str_float payload_with_null_item = Inr zero_features"
  proof -
    have "extract_loop no_str_float [holding (JInt 5) ''ETH'', JNull] zero_features
        = Inl AttributeError"
      by (simp add: holding_step [OF py_float_5] process_item_not_object)
    then have "extract_features_try no_str_float payload_with_null_item = Inl AttributeError"
      unfolding payload_with_null_item_def by (subst extract_items) simp_all
    then show ?thesis
      by (simp add: extract_features_def)
  qed
  have b: "positive_quotes no_str_float payload_with_null_item = [Finite 5]"
    by (simp add: positive_quotes_def positive_quotes_of_def payload_with_null_item_def
        balance_items_payload item_quote_holding float_overflow_above)
  have c: "extract_features no_str_float payload_with_unparseable_quote =
       Inr \<lparr>total_usd = Finite 5, num_assets = 1, largest_holding_usd = Finite 5,
            portfolio_concentration = Finite 1\<rparr>"
  proof -
    have u: "process_item no_str_float (holding (JStr ''n/a'') ''USDC'') f = Inr f" for f
      by (simp add: process_item_def process_item_try_def holding_def no_str_float_def)
    have "extract_loop no_str_float
        [holding (JInt 5) ''ETH'', holding (JStr ''n/a'') ''USDC''] zero_features
        = Inr \<lparr>total_usd = Finite 5, num_assets = 1, largest_holding_usd = Finite 5,
            portfolio_concentration = Finite 0\<rparr>"
      by (simp add: holding_step [OF py_float_5] u add_holding_def zero_features_def py_max_def)
    then have "extract_features_try no_str_float payload_with_unparseable_quote =
       Inr \<lparr>total_usd = Finite 5, num_assets = 1, largest_holding_usd = Finite 5,
            portfolio_concentration = Finite 1\<rparr>"
      unfolding payload_with_unparseable_quote_def
      by (subst extract_items) (simp_all add: py_truediv_def)
    then show ?thesis
      by (simp add: extract_features_def)
  qed
  from a b c show ?thesis by blast
qed

text \<open>
  Claim C10. The override of \<^verbatim>\<open>compute_score\<close> for \<open>total_usd = 0\<close> should fire
  exactly for the payloads with no item of positive parseable quote. By the same defect as
  in C6 it also fires for the items \<^verbatim>\<open>["dust", {quote: 7}]\<close>: the string item makes the
  extractor return the all-zero record, and the score is 800 although an item with a
  positive quote is present.
\<close>

theorem string_item_fires_override:
  "extract_features no_str_float payload_with_string_item = Inr zero_features
   \<and> feq (total_usd zero_features) (Finite 0)
   \<and> compute_score zero_features = Inr 800
   \<and> positive_quotes no_str_float payload_with_string_item = [Finite 7]"
proof -
  have "extract_loop no_str_float [JStr ''dust'', holding (JInt 7) ''USDC''] zero_features
      = Inl AttributeError"
    by (simp add: process_item_not_object)
  then have "extract_features_try no_str_float payload_with_string_item = Inl AttributeError"
    unfolding payload_with_string_item_def by (subst extract_items) simp_all
  then have a: "extract_features no_str_float payload_with_string_item = Inr zero_features"
    by (simp add: extract_features_def)
  have b: "positive_quotes no_str_float payload_with_string_item = [Finite 7]"
    by (simp add: positive_quotes_def positive_quotes_of_def payload_with_string_item_def
        balance_items_payload item_quote_holding float_overflow_above)
  from a b compute_score_zero_features show ?thesis
    by (simp add: zero_features_sel)
qed







lemma infinite_quote_features:
  "extract_features no_str_float payload_with_infinite_quote = Inr infinite_features"
proof -
  have q: "py_float no_str_float (JFloat PosInf) = Inr PosInf"
    by simp
  have "extract_loop no_str_float [holding (JFloat PosInf) ''ETH''] zero_features
      = Inr \<lparr>total_usd = PosInf, num_assets = 1, largest_holding_usd = PosInf,
           portfolio_concentration = Finite 0\<rparr>"
    by (simp add: holding_step [OF q] add_holding_def zero_features_def py_max_def)
  then have "extract_features_try no_str_float payload_with_infinite_quote
      = Inr infinite_features"
    unfolding payload_with_infinite_quote_def
    by (subst extract_items) (simp_all add: py_truediv_def infinite_features_def)
  then show ?thesis
    by (simp add: extract_features_def)
qed

lemma infinite_features_raise: "compute_score infinite_features = Inl ValueError"
  by (rule compute_score_NaN_concentration) (simp add: infinite_features_def)

text \<open>
  The bound does not hold for every record: \<^verbatim>\<open>round\<close> runs before the clamp and
  raises on NaN. One quote read as infinity makes the extractor return an infinite total
  and a NaN concentration, on which \<^verbatim>\<open>compute_score\<close> raises \<^verbatim>\<open>ValueError\<close>; the
  batch runner then records the wallet as failed (\<open>infinite_quote_wallet_fails\<close>).
\<close>

theorem compute_score_raises_on_NaN:
  "extract_features no_str_float payload_with_infinite_quote = Inr infinite_features
   \<and> compute_score infinite_features = Inl ValueError"
  using infinite_quote_features infinite_features_raise by blast

section \<open>Properties of the fetcher\<close>

lemma upto_0_2: "[0..(2::int)] = [0, 1, 2]"
  by (simp add: upto_rec1)

lemma script_sel:
  "http_get script_env = script_http_get"
  "sleep script_env = script_sleep"
  "random_random script_env = script_random"
  "str_to_float script_env = no_str_float"
  by (simp_all add: script_env_def)

lemma all_timeouts:
  "fetch_wallet_data script_env ''0xa'' 3 ([], []) =
     (None, ([], [Requested ''0xa'', Slept 1, Requested ''0xa'', Slept 2, Requested ''0xa'']))"
  by (simp add: fetch_wallet_data_def upto_0_2 script_sel script_http_get_def script_sleep_def)

lemma fetch_attempts_Backoff:
  assumes "http_get env address w = (r, w1)" and "attempt_end_of r = Backoff"
  shows "fetch_attempts env address retries (attempt # rest) w =
           fetch_attempts env address retries rest
             (if attempt < retries - 1
              then sleep env (of_int (min (2 ^ nat attempt) 30)) w1 else w1)"
  using assms by simp

lemma fetch_attempts_errors:
  assumes "http_get env address w = (r, w1)" and "attempt_end_of r = Continue_errors"
  shows "fetch_attempts env address retries (attempt # rest) w =
           fetch_attempts env address retries rest w1"
  using assms by simp

lemma attempt_end_of_errors:
  "map_of kvs ''errors'' = Some v \<Longrightarrow>
   attempt_end_of (Response 200 (Some (JObj kvs))) = Continue_errors"
proof -
  assume "map_of kvs ''errors'' = Some v"
  then have "(''errors'', v) \<in> set kvs"
    by (rule map_of_SomeD)
  then have "''errors'' \<in> fst ` set kvs"
    by (rule rev_image_eqI) simp
  then have "check_body (JObj kvs) = Inr Continue_errors"
    by (simp add: check_body_def)
  then show ?thesis
    by simp
qed

lemma attempt_end_of_empty_object:
  "attempt_end_of (Response 200 (Some (JObj []))) = Continue_errors"
  by (simp add: check_body_def)

lemma attempt_end_of_no_data:
  "kvs \<noteq> [] \<Longrightarrow> ''errors'' \<notin> fst ` set kvs \<Longrightarrow> ''data'' \<notin> fst ` set kvs \<Longrightarrow>
   attempt_end_of (Response 200 (Some (JObj kvs))) = Backoff"
  by (simp add: check_body_def)

text \<open>
  Claim C5. Every retryable failure other than a rate limit should be followed by a
  backoff sleep of \<open>min (2 ^ attempt) 30\<close> seconds before the next attempt. The code does
  so after an exception and after a body without \<^verbatim>\<open>data\<close>
  (\<open>fetch_attempts_Backoff\<close>), but a decoded object that is empty or has an
  \<^verbatim>\<open>errors\<close> key takes the \<^verbatim>\<open>continue\<close> before the backoff
  (\<open>fetch_attempts_errors\<close>). The runs below show both: after an \<^verbatim>\<open>errors\<close> body
  the second request follows the first with no sleep between them, after a body without
  \<^verbatim>\<open>data\<close> the fetcher sleeps one second.
\<close>

theorem errors_response_retried_without_backoff:
  "fetch_wallet_data script_env ''0xa'' 3
     ([Response 200 (Some (JObj [(''errors'', JStr ''boom'')])),
       Response 200 (Some (JObj [(''data'', JObj [])]))], []) =
     (Some (JObj [(''data'', JObj [])]), ([], [Requested ''0xa'', Requested ''0xa'']))
   \<and> fetch_wallet_data script_env ''0xa'' 3
     ([Response 200 (Some (JObj [(''status'', JStr ''ok'')])),
       Response 200 (Some (JObj [(''data'', JObj [])]))], []) =
     (Some (JObj [(''data'', JObj [])]), ([], [Requested ''0xa'', Slept 1, Requested ''0xa'']))"
  by (simp add: fetch_wallet_data_def upto_0_2 script_sel script_http_get_def script_sleep_def
      check_body_def)

section \<open>Properties of the batch runner\<close>

lemma process_wallet_results:
  "\<exists>sc. results (process_wallet env addr st) = results st @ [\<lparr>wallet_id = addr, score = sc\<rparr>]"
  by (auto simp: process_wallet_def record_failure_def Let_def
      split: prod.splits option.splits sum.splits)

lemma main_loop_results:
  "\<exists>rs. results (main_loop env addrs st) = results st @ rs \<and> map wallet_id rs = addrs"
proof (induction addrs arbitrary: st)
  case Nil
  then show ?case by simp
next
  case (Cons addr rest)
  obtain sc where 1: "results (process_wallet env addr st) = results st @ [\<lparr>wallet_id = addr, score = sc\<rparr>]"
    using process_wallet_results by blast
  obtain rs where 2: "results (main_loop env rest (process_wallet env addr st))
      = results (process_wallet env addr st) @ rs" and 3: "map wallet_id rs = rest"
    using Cons.IH by blast
  show ?case
    by (rule exI [of _ "\<lparr>wallet_id = addr, score = sc\<rparr> # rs"]) (simp add: 1 2 3)
qed

lemma main_loop_append:
  "main_loop env (xs @ ys) st = main_loop env ys (main_loop env xs st)"
  by (induction xs arbitrary: st) simp_all

lemma process_wallet_fetch_None:
  "fetch_wallet_data env addr 3 (world st) = (None, w') \<Longrightarrow>
   process_wallet env addr st = record_failure addr ''Failed to fetch data'' w' st"
  by (simp add: process_wallet_def)

lemma process_wallet_failed:
  "\<exists>fs. failed_addresses (process_wallet env addr st) = failed_addresses st @ fs"
  by (auto simp: process_wallet_def record_failure_def Let_def
      split: prod.splits option.splits sum.splits)

lemma main_loop_failed:
  "\<exists>fs. failed_addresses (main_loop env addrs st) = failed_addresses st @ fs"
proof (induction addrs arbitrary: st)
  case Nil
  then show ?case by simp
next
  case (Cons addr rest)
  obtain fs1 where 1: "failed_addresses (process_wallet env addr st) = failed_addresses st @ fs1"
    using process_wallet_failed by blast
  obtain fs2 where 2: "failed_addresses (main_loop env rest (process_wallet env addr st))
      = failed_addresses (process_wallet env addr st) @ fs2"
    using Cons.IH by blast
  show ?case
    by (rule exI [of _ "fs1 @ fs2"]) (simp add: 1 2)
qed

text \<open>
  Claim C1. For every list of wallet addresses and every environment, whatever mix of
  fetch successes and failures it produces, the batch runner yields exactly one result
  per input address, in the order of the input.
\<close>

theorem one_result_per_address:
  "map wallet_id (results (main env wallet_addresses w)) = wallet_addresses
   \<and> length (results (main env wallet_addresses w)) = length wallet_addresses"
proof -
  obtain rs where "results (main env wallet_addresses w) = rs" and m: "map wallet_id rs = wallet_addresses"
    using main_loop_results [of env wallet_addresses "\<lparr>results = [], failed_addresses = [], world = w\<rparr>"]
    by (auto simp: main_def)
  moreover have "length rs = length wallet_addresses"
    using m by (metis length_map)
  ultimately show ?thesis by simp
qed

text \<open>
  Claim C4. When the fetcher returns \<^verbatim>\<open>None\<close> for an address of the batch, the
  runner appends the failure record with reason "Failed to fetch data" and a result with
  score 0 for that address, and goes on with the remaining addresses.
\<close>

theorem fetch_failure_recorded:
  assumes "fetch_wallet_data env addr 3 (world (main env pre w)) = (None, w')"
  shows "main env (pre @ addr # post) w =
           main_loop env post
             ((main env pre w)
                \<lparr>failed_addresses :=
                   failed_addresses (main env pre w) @ [(addr, ''Failed to fetch data'')],
                 results := results (main env pre w) @ [\<lparr>wallet_id = addr, score = 0\<rparr>],
                 world := w'\<rparr>)
       \<and> results (main env (pre @ addr # post) w) ! length pre = \<lparr>wallet_id = addr, score = 0\<rparr>
       \<and> (addr, ''Failed to fetch data'') \<in> set (failed_addresses (main env (pre @ addr # post) w))
       \<and> length (results (main env (pre @ addr # post) w)) = length pre + 1 + length post"
proof -
  let ?st1 = "main env pre w"
  let ?st2 = "?st1\<lparr>failed_addresses := failed_addresses ?st1 @ [(addr, ''Failed to fetch data'')],
                 results := results ?st1 @ [\<lparr>wallet_id = addr, score = 0\<rparr>],
                 world := w'\<rparr>"
  have step: "process_wallet env addr ?st1 = ?st2"
    using process_wallet_fetch_None [OF assms] by (simp add: record_failure_def)
  have run: "main env (pre @ addr # post) w = main_loop env post ?st2"
    using step by (simp add: main_def main_loop_append)
  obtain rs1 where r1: "results ?st1 = rs1" and l1: "map wallet_id rs1 = pre"
    using main_loop_results [of env pre "\<lparr>results = [], failed_addresses = [], world = w\<rparr>"]
    by (auto simp: main_def)
  have len1: "length rs1 = length pre"
    using l1 by (metis length_map)
  obtain rs2 where r2: "results (main_loop env post ?st2) = results ?st2 @ rs2"
    and l2: "map wallet_id rs2 = post"
    using main_loop_results by blast
  have len2: "length rs2 = length post"
    using l2 by (metis length_map)
  obtain fs where f: "failed_addresses (main_loop env post ?st2) = failed_addresses ?st2 @ fs"
    using main_loop_failed by blast
  have res: "results (main env (pre @ addr # post) w) = rs1 @ \<lparr>wallet_id = addr, score = 0\<rparr> # rs2"
    unfolding run r2 by (simp add: r1)
  have a: "results (main env (pre @ addr # post) w) ! length pre = \<lparr>wallet_id = addr, score = 0\<rparr>"
    using len1 by (simp add: res nth_append)
  have b: "(addr, ''Failed to fetch data'') \<in> set (failed_addresses (main env (pre @ addr # post) w))"
    unfolding run f by simp
  have c: "length (results (main env (pre @ addr # post) w)) = length pre + 1 + length post"
    by (simp add: res len1 len2)
  from run a b c show ?thesis
    by blast
qed

theorem fetch_failure_recorded_witness:
  "fetch_wallet_data script_env ''0xa'' 3 (world (main script_env [] ([], []))) =
     (None, ([], [Requested ''0xa'', Slept 1, Requested ''0xa'', Slept 2, Requested ''0xa'']))
   \<and> results (main script_env [''0xa'', ''0xb''] ([], [])) ! 0 = \<lparr>wallet_id = ''0xa'', score = 0\<rparr>
   \<and> (''0xa'', ''Failed to fetch data'')
        \<in> set (failed_addresses (main script_env [''0xa'', ''0xb''] ([], [])))
   \<and> length (results (main script_env [''0xa'', ''0xb''] ([], []))) = 2"
proof -
  have h: "fetch_wallet_data script_env ''0xa'' 3 (world (main script_env [] ([], []))) =
     (None, ([], [Requested ''0xa'', Slept 1, Requested ''0xa'', Slept 2, Requested ''0xa'']))"
    by (simp add: main_def all_timeouts)
  show ?thesis
    using h fetch_failure_recorded [OF h, of "[''0xb'']", THEN conjunct2]
    by simp
qed

lemma fetch_infinite_quote:
  "fetch_wallet_data script_env ''0xa'' 3
     ([Response 200 (Some payload_with_infinite_quote)], [])
   = (Some payload_with_infinite_quote, ([], [Requested ''0xa'']))"
proof -
  have "check_body payload_with_infinite_quote = Inr (Return payload_with_infinite_quote)"
    by (simp add: check_body_def payload_with_infinite_quote_def payload_of_items_def)
  then show ?thesis
    by (simp add: fetch_wallet_data_def upto_0_2 script_sel script_http_get_def)
qed

lemma infinite_quote_wallet_fails:
  "process_wallet script_env ''0xa''
     \<lparr>results = [], failed_addresses = [],
      world = ([Response 200 (Some payload_with_infinite_quote)], [])\<rparr>
   = \<lparr>results = [\<lparr>wallet_id = ''0xa'', score = 0\<rparr>],
      failed_addresses = [(''0xa'', ''ValueError'')],
      world = ([], [Requested ''0xa''])\<rparr>"
proof -
  have t: "truthy payload_with_infinite_quote"
    by (simp add: payload_with_infinite_quote_def payload_of_items_def)
  show ?thesis
    by (simp add: process_wallet_def fetch_infinite_quote t script_sel
        infinite_quote_features infinite_features_raise record_failure_def)
qed

end
